theory Spec2Isabelle
  imports Complex_Main
begin

section \<open>Exceptions and results\<close>

text \<open>
  The classes of \<^verbatim>\<open>aiosmtplib.errors\<close> that \<^verbatim>\<open>connection.py\<close> imports, and any
  other class of that module (\<open>SMTPOther\<close>, by name). The module itself is not part of
  the source tree, so the superclasses of these classes are a parameter of the model
  (a \<open>hierarchy\<close>, below).
\<close>

datatype smtp_class =
  SMTPServerDisconnected | SMTPConnectError | SMTPConnectTimeoutError
  | SMTPTimeoutError | SMTPResponseException | SMTPOther string

text \<open>
  Python's built-in exception classes that occur here. \<open>AsyncioTimeoutError\<close> is
  \<^verbatim>\<open>asyncio.TimeoutError\<close>: the module passes \<^verbatim>\<open>loop=\<close> to \<^verbatim>\<open>asyncio.Lock\<close> and
  \<^verbatim>\<open>asyncio.wait_for\<close>, which only the Python versions accept where that class is not
  the built-in \<^verbatim>\<open>TimeoutError\<close> and not an \<^verbatim>\<open>OSError\<close>.
\<close>

datatype exc_class =
  BaseException | Exception | OSError | ConnectionError | ConnectionRefusedError
  | ConnectionResetError | BrokenPipeError | TimeoutError | AsyncioTimeoutError
  | ValueError | RuntimeError | NotImplementedError | AssertionError
  | SMTP smtp_class

record response =
  code :: int
  message :: string

text \<open>
  What an exception carries. The formatted messages of the module are kept as
  structured values: \<open>ConnectFailed host port err\<close> is
  \<^verbatim>\<open>"Error connecting to {host} on port {port}: {err}"\<close>, \<open>ConnectTimedOut host port\<close> is
  \<^verbatim>\<open>"Timed out connecting to {host} on port {port}"\<close>, and \<open>ResponseStr r\<close> is
  \<^verbatim>\<open>str(response)\<close>.
\<close>

datatype msg =
  Text string
  | ConnectFailed "string option" "int option" msg
  | ConnectTimedOut "string option" "int option"
  | ResponseStr response

datatype exn = Exn (exc_type: exc_class) (exc_msg: msg)

text \<open>
  A call returns a value, raises, or never gets past \<^verbatim>\<open>await lock.acquire()\<close> on a lock
  that is held: nothing in a single flow of control releases it, so the call suspends
  for good (\<open>Blocked\<close>). State changes made before a raise stay (the object is mutated
  in place), so every operation returns the state next to its result.
\<close>

datatype 'a result = Return 'a | Raise exn | Blocked

text \<open>What an awaited collaborator (event loop, protocol) does: it yields a value or raises.\<close>

datatype 'a outcome = Yields 'a | Throws exn

type_synonym hierarchy = "smtp_class \<Rightarrow> exc_class list"

text \<open>The strict superclasses of a class (its MRO without itself).\<close>

fun supers :: "hierarchy \<Rightarrow> exc_class \<Rightarrow> exc_class list" where
  "supers H BaseException = []"
| "supers H Exception = [BaseException]"
| "supers H OSError = [Exception, BaseException]"
| "supers H ConnectionError = [OSError, Exception, BaseException]"
| "supers H ConnectionRefusedError = [ConnectionError, OSError, Exception, BaseException]"
| "supers H ConnectionResetError = [ConnectionError, OSError, Exception, BaseException]"
| "supers H BrokenPipeError = [ConnectionError, OSError, Exception, BaseException]"
| "supers H TimeoutError = [OSError, Exception, BaseException]"
| "supers H AsyncioTimeoutError = [Exception, BaseException]"
| "supers H ValueError = [Exception, BaseException]"
| "supers H RuntimeError = [Exception, BaseException]"
| "supers H NotImplementedError = [RuntimeError, Exception, BaseException]"
| "supers H AssertionError = [Exception, BaseException]"
| "supers H (SMTP c) = H c"

definition issubclass :: "hierarchy \<Rightarrow> exc_class \<Rightarrow> exc_class \<Rightarrow> bool" where
  "issubclass H c d = (c = d \<or> d \<in> set (supers H c))"

text \<open>\<^verbatim>\<open>except (D1, D2, ...)\<close> catches \<open>e\<close> when its class is a subclass of one of them.\<close>

definition isinstance :: "hierarchy \<Rightarrow> exn \<Rightarrow> exc_class list \<Rightarrow> bool" where
  "isinstance H e ds = list_ex (issubclass H (exc_type e)) ds"

section \<open>The objects the connection refers to\<close>

type_synonym tref = nat
type_synonym cref = nat
type_synonym loop_id = nat

datatype purpose = SERVER_AUTH | CLIENT_AUTH

datatype verify_mode = CERT_NONE | CERT_OPTIONAL | CERT_REQUIRED

text \<open>
  An \<^verbatim>\<open>ssl.SSLContext\<close>: the two verification settings, the CA files given to
  \<^verbatim>\<open>load_verify_locations\<close> and the (certificate, key) pairs given to
  \<^verbatim>\<open>load_cert_chain\<close>. The file-system errors of the two loaders are outside the model.
\<close>

record ssl_context =
  purpose :: purpose
  check_hostname :: bool
  verify_mode :: verify_mode
  verify_locations :: "string list"
  cert_chain :: "(string \<times> string option) list"

datatype protocol = SMTPProtocol loop_id

text \<open>The calls that reach a collaborator, in the order they are made.\<close>

datatype event =
  CreateConnection "string option" "int option" "cref option" "rat option"
  | ReadResponse "rat option"
  | ExecuteCommand "string list" "rat option"
  | GetExtraInfo tref string

text \<open>
  What lives outside the \<^verbatim>\<open>SMTPConnection\<close> object: for every transport whether
  \<^verbatim>\<open>is_closing()\<close> holds, the \<^verbatim>\<open>SSLContext\<close> objects by reference, and the trace of
  collaborator calls. The peer can set \<open>closing\<close> between two operations; within one
  operation only \<^verbatim>\<open>transport.close()\<close> does.
\<close>

record world =
  closing :: "tref \<Rightarrow> bool"
  contexts :: "ssl_context list"
  trace :: "event list"

record smtp_connection = world +
  protocol :: "protocol option"
  transport :: "tref option"
  hostname :: "string option"
  port :: "int option"
  timeout :: "rat option"
  use_tls :: bool
  priv_source_address :: "string option"
  validate_certs :: bool
  client_cert :: "string option"
  client_key :: "string option"
  tls_context :: "cref option"
  cert_bundle :: "string option"
  loop :: loop_id
  connect_lock :: bool

text \<open>The sentinel \<^verbatim>\<open>_default\<close> of \<^verbatim>\<open>aiosmtplib.default\<close>: \<open>Default\<close>, or a value passed.\<close>

datatype 'a or_default = Default | Value 'a

section \<open>Constants\<close>

definition SMTP_PORT :: int where "SMTP_PORT = 25"
definition SMTP_TLS_PORT :: int where "SMTP_TLS_PORT = 465"
definition SMTP_STARTTLS_PORT :: int where "SMTP_STARTTLS_PORT = 587"
definition DEFAULT_TIMEOUT :: rat where "DEFAULT_TIMEOUT = 60"

text \<open>
  Modelled from the spec: \<^verbatim>\<open>aiosmtplib.status\<close> (the enumeration \<^verbatim>\<open>SMTPStatus\<close>) is not
  part of the source tree. The spec names the two members used here as the protocol's
  "service ready" code (its scenario: a server that sends \<^verbatim>\<open>220 ready\<close>) and the
  "domain/service unavailable" code, which SMTP numbers 421.
\<close>

definition SMTPStatus_ready :: int where "SMTPStatus_ready = 220"
definition SMTPStatus_domain_unavailable :: int where "SMTPStatus_domain_unavailable = 421"

section \<open>Sequencing\<close>

text \<open>Statement after statement: the second runs only when the first returned.\<close>

definition and_then ::
  "'a result \<times> 's \<Rightarrow> ('a \<Rightarrow> 's \<Rightarrow> 'b result \<times> 's) \<Rightarrow> 'b result \<times> 's" where
  "and_then m f =
     (case m of
        (Return x, s) \<Rightarrow> f x s
      | (Raise e, s) \<Rightarrow> (Raise e, s)
      | (Blocked, s) \<Rightarrow> (Blocked, s))"

section \<open>SMTPConnection\<close>

subsection \<open>\<^verbatim>\<open>__init__\<close>\<close>

record init_args =
  init_hostname :: "string option"
  init_port :: "int option"
  init_source_address :: "string option"
  init_timeout :: "rat option"
  init_loop :: "loop_id option"
  init_use_tls :: bool
  init_validate_certs :: bool
  init_client_cert :: "string option"
  init_client_key :: "string option"
  init_tls_context :: "cref option"
  init_cert_bundle :: "string option"

text \<open>The keyword defaults of \<^verbatim>\<open>__init__\<close>.\<close>

definition init_defaults :: init_args where
  "init_defaults =
     \<lparr>init_hostname = Some ''localhost'', init_port = None, init_source_address = None,
      init_timeout = Some DEFAULT_TIMEOUT, init_loop = None, init_use_tls = False,
      init_validate_certs = True, init_client_cert = None, init_client_key = None,
      init_tls_context = None, init_cert_bundle = None\<rparr>"

text \<open>
  \<open>current_loop\<close> is what \<^verbatim>\<open>asyncio.get_event_loop()\<close> returns. The new lock is free.
\<close>

definition init :: "init_args \<Rightarrow> loop_id \<Rightarrow> world \<Rightarrow> exn + smtp_connection" where
  "init a current_loop w =
     (if init_tls_context a \<noteq> None \<and> init_client_cert a \<noteq> None
      then Inl (Exn ValueError (Text ''Either a TLS context or a certificate/key must be provided''))
      else Inr \<lparr>closing = closing w, contexts = contexts w, trace = trace w,
                protocol = None, transport = None,
                hostname = init_hostname a, port = init_port a, timeout = init_timeout a,
                use_tls = init_use_tls a, priv_source_address = init_source_address a,
                validate_certs = init_validate_certs a, client_cert = init_client_cert a,
                client_key = init_client_key a, tls_context = init_tls_context a,
                cert_bundle = init_cert_bundle a,
                loop = (case init_loop a of Some l \<Rightarrow> l | None \<Rightarrow> current_loop),
                connect_lock = False\<rparr>)"

subsection \<open>\<^verbatim>\<open>is_connected\<close>, \<^verbatim>\<open>source_address\<close>\<close>

definition is_connected :: "smtp_connection \<Rightarrow> bool" where
  "is_connected s = (case transport s of None \<Rightarrow> False | Some t \<Rightarrow> \<not> closing s t)"

text \<open>\<open>getfqdn\<close> is what \<^verbatim>\<open>socket.getfqdn()\<close> returns.\<close>

definition source_address :: "string \<Rightarrow> smtp_connection \<Rightarrow> string \<times> smtp_connection" where
  "source_address getfqdn s =
     (case priv_source_address s of
        None \<Rightarrow> (getfqdn, s\<lparr>priv_source_address := Some getfqdn\<rparr>)
      | Some a \<Rightarrow> (a, s))"

subsection \<open>\<^verbatim>\<open>close\<close>\<close>

text \<open>\<^verbatim>\<open>asyncio.Lock.release\<close>: raises \<^verbatim>\<open>RuntimeError\<close> on a lock that is not held.\<close>

definition lock_release :: "bool \<Rightarrow> exn + bool" where
  "lock_release locked =
     (if locked then Inr False else Inl (Exn RuntimeError (Text ''Lock is not acquired.'')))"

definition close :: "smtp_connection \<Rightarrow> unit result \<times> smtp_connection" where
  "close s =
     (let s = (case transport s of
                 Some t \<Rightarrow> if \<not> closing s t then s\<lparr>closing := (closing s)(t := True)\<rparr> else s
               | None \<Rightarrow> s)
      in case (if connect_lock s then lock_release (connect_lock s) else Inr (connect_lock s)) of
           Inl e \<Rightarrow> (Raise e, s)
         | Inr l \<Rightarrow> (Return (), s\<lparr>connect_lock := l, protocol := None, transport := None\<rparr>))"

text \<open>A sequence of \<open>n\<close> calls of \<^verbatim>\<open>close()\<close>; a call that raised would end the sequence.\<close>

fun close_times :: "nat \<Rightarrow> smtp_connection \<Rightarrow> unit result \<times> smtp_connection" where
  "close_times 0 s = (Return (), s)"
| "close_times (Suc n) s = and_then (close s) (\<lambda>_. close_times n)"

subsection \<open>\<^verbatim>\<open>_get_tls_context\<close>\<close>

text \<open>
  \<^verbatim>\<open>ssl.create_default_context\<close>: for \<^verbatim>\<open>Purpose.SERVER_AUTH\<close> the new context checks the
  host name and requires the peer's certificate.
\<close>

definition create_default_context :: "purpose \<Rightarrow> ssl_context" where
  "create_default_context p =
     \<lparr>purpose = p, check_hostname = (p = SERVER_AUTH),
      verify_mode = (if p = SERVER_AUTH then CERT_REQUIRED else CERT_NONE),
      verify_locations = [], cert_chain = []\<rparr>"

text \<open>
  The setter of \<^verbatim>\<open>SSLContext.verify_mode\<close> refuses \<^verbatim>\<open>CERT_NONE\<close> while
  \<^verbatim>\<open>check_hostname\<close> is on.
\<close>

definition set_verify_mode :: "ssl_context \<Rightarrow> verify_mode \<Rightarrow> exn + ssl_context" where
  "set_verify_mode c m =
     (if m = CERT_NONE \<and> check_hostname c
      then Inl (Exn ValueError
                 (Text ''Cannot set verify_mode to CERT_NONE when check_hostname is enabled.''))
      else Inr (c\<lparr>verify_mode := m\<rparr>))"

text \<open>
  The context built in the \<^verbatim>\<open>else\<close> branch is a new object: it enters \<open>contexts\<close> at a
  new reference once it is complete, and no other entry is written.
\<close>

definition get_tls_context :: "smtp_connection \<Rightarrow> cref result \<times> smtp_connection" where
  "get_tls_context s =
     (case tls_context s of
        Some r \<Rightarrow> (Return r, s)
      | None \<Rightarrow>
          (let context = create_default_context SERVER_AUTH;
               context = context\<lparr>check_hostname := validate_certs s\<rparr>
           in case set_verify_mode context
                     (if validate_certs s then CERT_REQUIRED else CERT_NONE) of
                Inl e \<Rightarrow> (Raise e, s)
              | Inr context \<Rightarrow>
                  (let context =
                         (case cert_bundle s of
                            Some b \<Rightarrow>
                              context\<lparr>verify_locations := verify_locations context @ [b]\<rparr>
                          | None \<Rightarrow> context);
                       context =
                         (case client_cert s of
                            Some c \<Rightarrow>
                              context\<lparr>cert_chain := cert_chain context @ [(c, client_key s)]\<rparr>
                          | None \<Rightarrow> context)
                   in (Return (length (contexts s)),
                       s\<lparr>contexts := contexts s @ [context]\<rparr>))))"

subsection \<open>\<^verbatim>\<open>_create_connection\<close>\<close>

text \<open>
  \<open>opened\<close> is what awaiting \<^verbatim>\<open>loop.create_connection\<close> under \<^verbatim>\<open>wait_for\<close> does (the
  transport, or an exception), \<open>greeting\<close> what awaiting \<^verbatim>\<open>protocol.read_response()\<close>
  under \<^verbatim>\<open>wait_for\<close> does.
\<close>

definition create_connection ::
  "hierarchy \<Rightarrow> smtp_connection \<Rightarrow> tref outcome \<Rightarrow> response outcome
     \<Rightarrow> response result \<times> smtp_connection" where
  "create_connection H s opened greeting =
     (if hostname s = None then (Raise (Exn ValueError (Text ''Hostname must be set.'')), s)
      else if port s = None then (Raise (Exn ValueError (Text ''Port must be set.'')), s)
      else
        let protocol' = SMTPProtocol (loop s) in
        and_then
          (if use_tls s
           then and_then (get_tls_context s) (\<lambda>r s. (Return (Some r), s))
           else (Return None, s))
          (\<lambda>tls_context' s.
             let s = s\<lparr>trace := trace s
                         @ [CreateConnection (hostname s) (port s) tls_context' (timeout s)]\<rparr>
             in case opened of
                  Throws err \<Rightarrow>
                    if isinstance H err [ConnectionRefusedError, OSError]
                    then and_then (close s) (\<lambda>_ s.
                           (Raise (Exn (SMTP SMTPConnectError)
                                     (ConnectFailed (hostname s) (port s) (exc_msg err))), s))
                    else if isinstance H err [AsyncioTimeoutError]
                    then and_then (close s) (\<lambda>_ s.
                           (Raise (Exn (SMTP SMTPConnectTimeoutError)
                                     (ConnectTimedOut (hostname s) (port s))), s))
                    else (Raise err, s)
                | Yields transport' \<Rightarrow>
                    (let s = s\<lparr>protocol := Some protocol', transport := Some transport'\<rparr>;
                         s = s\<lparr>trace := trace s @ [ReadResponse (timeout s)]\<rparr>
                     in case greeting of
                          Throws err \<Rightarrow>
                            if isinstance H err [AsyncioTimeoutError]
                            then and_then (close s) (\<lambda>_ s.
                                   (Raise (Exn (SMTP SMTPConnectTimeoutError)
                                      (Text ''Timed out waiting for server ready message'')), s))
                            else (Raise err, s)
                        | Yields response' \<Rightarrow>
                            if code response' \<noteq> SMTPStatus_ready
                            then and_then (close s) (\<lambda>_ s.
                                   (Raise (Exn (SMTP SMTPConnectError)
                                             (ResponseStr response')), s))
                            else (Return response', s))))"

subsection \<open>\<^verbatim>\<open>connect\<close>\<close>

text \<open>
  The keyword arguments of \<^verbatim>\<open>connect\<close>. Those whose default is \<^verbatim>\<open>None\<close> are options:
  a call that passes \<^verbatim>\<open>None\<close> and a call that passes nothing are the same call. Those
  whose default is \<^verbatim>\<open>_default\<close> can carry \<^verbatim>\<open>None\<close> as a value.
\<close>

record connect_args =
  arg_hostname :: "string option"
  arg_port :: "int option"
  arg_source_address :: "string option or_default"
  arg_timeout :: "rat option or_default"
  arg_loop :: "loop_id option"
  arg_use_tls :: "bool option"
  arg_validate_certs :: "bool option"
  arg_client_cert :: "string option or_default"
  arg_client_key :: "string option or_default"
  arg_tls_context :: "cref option or_default"
  arg_cert_bundle :: "string option or_default"

text \<open>\<^verbatim>\<open>connect()\<close> with no argument.\<close>

definition connect_defaults :: connect_args where
  "connect_defaults =
     \<lparr>arg_hostname = None, arg_port = None, arg_source_address = Default,
      arg_timeout = Default, arg_loop = None, arg_use_tls = None,
      arg_validate_certs = None, arg_client_cert = Default, arg_client_key = Default,
      arg_tls_context = Default, arg_cert_bundle = Default\<rparr>"

text \<open>
  The block of \<^verbatim>\<open>connect\<close> that stores the arguments (from \<^verbatim>\<open>if hostname is not None\<close>
  to \<^verbatim>\<open>self.cert_bundle = cert_bundle\<close>), statement by statement.
\<close>

definition connect_settings :: "smtp_connection \<Rightarrow> connect_args \<Rightarrow> smtp_connection" where
  "connect_settings s a =
     (let s = (case arg_hostname a of Some v \<Rightarrow> s\<lparr>hostname := Some v\<rparr> | None \<Rightarrow> s);
          s = (case arg_loop a of Some v \<Rightarrow> s\<lparr>loop := v\<rparr> | None \<Rightarrow> s);
          s = (case arg_use_tls a of Some v \<Rightarrow> s\<lparr>use_tls := v\<rparr> | None \<Rightarrow> s);
          s = (case arg_validate_certs a of Some v \<Rightarrow> s\<lparr>validate_certs := v\<rparr> | None \<Rightarrow> s);
          s = (case arg_port a of Some v \<Rightarrow> s\<lparr>port := Some v\<rparr> | None \<Rightarrow> s);
          s = (if port s = None
               then s\<lparr>port := Some (if use_tls s then SMTP_TLS_PORT else SMTP_PORT)\<rparr>
               else s);
          s = (case arg_timeout a of Value v \<Rightarrow> s\<lparr>timeout := v\<rparr> | Default \<Rightarrow> s);
          s = (case arg_source_address a of
                 Value v \<Rightarrow> s\<lparr>priv_source_address := v\<rparr> | Default \<Rightarrow> s);
          s = (case arg_client_cert a of Value v \<Rightarrow> s\<lparr>client_cert := v\<rparr> | Default \<Rightarrow> s);
          s = (case arg_client_key a of Value v \<Rightarrow> s\<lparr>client_key := v\<rparr> | Default \<Rightarrow> s);
          s = (case arg_tls_context a of Value v \<Rightarrow> s\<lparr>tls_context := v\<rparr> | Default \<Rightarrow> s);
          s = (case arg_cert_bundle a of Value v \<Rightarrow> s\<lparr>cert_bundle := v\<rparr> | Default \<Rightarrow> s)
      in s)"

definition connect ::
  "hierarchy \<Rightarrow> smtp_connection \<Rightarrow> connect_args \<Rightarrow> tref outcome \<Rightarrow> response outcome
     \<Rightarrow> response result \<times> smtp_connection" where
  "connect H s a opened greeting =
     (if connect_lock s then (Blocked, s)
      else
        let s = s\<lparr>connect_lock := True\<rparr>;
            s = connect_settings s a
        in if tls_context s \<noteq> None \<and> client_cert s \<noteq> None
           then (Raise (Exn ValueError
                          (Text ''Either a TLS context or a certificate/key must be provided'')), s)
           else create_connection H s opened greeting)"

subsection \<open>\<^verbatim>\<open>_raise_error_if_disconnected\<close>, \<^verbatim>\<open>execute_command\<close>, \<^verbatim>\<open>get_transport_info\<close>\<close>

definition raise_error_if_disconnected :: "smtp_connection \<Rightarrow> unit result \<times> smtp_connection" where
  "raise_error_if_disconnected s =
     (if transport s = None \<or> protocol s = None
         \<or> (case transport s of Some t \<Rightarrow> closing s t | None \<Rightarrow> False)
      then and_then (close s) (\<lambda>_ s.
             (Raise (Exn (SMTP SMTPServerDisconnected) (Text ''Disconnected from SMTP server'')), s))
      else (Return (), s))"

text \<open>\<open>reply\<close> is what awaiting \<^verbatim>\<open>self.protocol.execute_command\<close> does.\<close>

definition execute_command ::
  "hierarchy \<Rightarrow> smtp_connection \<Rightarrow> string list \<Rightarrow> rat option or_default \<Rightarrow> response outcome
     \<Rightarrow> response result \<times> smtp_connection" where
  "execute_command H s args timeout' reply =
     (let timeout' = (case timeout' of Default \<Rightarrow> timeout s | Value v \<Rightarrow> v) in
      and_then (raise_error_if_disconnected s) (\<lambda>_ s.
        let s = s\<lparr>trace := trace s @ [ExecuteCommand args timeout']\<rparr>
        in case reply of
             Throws err \<Rightarrow>
               if isinstance H err [SMTP SMTPServerDisconnected]
               then and_then (close s) (\<lambda>_ s. (Raise err, s))
               else (Raise err, s)
           | Yields response' \<Rightarrow>
               and_then
                 (if code response' = SMTPStatus_domain_unavailable then close s
                  else (Return (), s))
                 (\<lambda>_ s. (Return response', s))))"

text \<open>\<open>get_extra_info\<close> is the transport's method of that name.\<close>

definition get_transport_info ::
  "(tref \<Rightarrow> string \<Rightarrow> 'i) \<Rightarrow> smtp_connection \<Rightarrow> string \<Rightarrow> 'i result \<times> smtp_connection" where
  "get_transport_info get_extra_info s key =
     and_then (raise_error_if_disconnected s) (\<lambda>_ s.
       case transport s of
         None \<Rightarrow> (Raise (Exn AssertionError (Text [])), s)
       | Some t \<Rightarrow>
           (Return (get_extra_info t key), s\<lparr>trace := trace s @ [GetExtraInfo t key]\<rparr>))"

subsection \<open>\<^verbatim>\<open>quit\<close>, \<^verbatim>\<open>__aenter__\<close>, \<^verbatim>\<open>__aexit__\<close>\<close>

definition quit ::
  "rat option or_default \<Rightarrow> smtp_connection \<Rightarrow> response result \<times> smtp_connection" where
  "quit timeout' s = (Raise (Exn NotImplementedError (Text [])), s)"

definition aenter ::
  "hierarchy \<Rightarrow> smtp_connection \<Rightarrow> tref outcome \<Rightarrow> response outcome
     \<Rightarrow> unit result \<times> smtp_connection" where
  "aenter H s opened greeting =
     (if \<not> is_connected s
      then and_then (connect H s connect_defaults opened greeting) (\<lambda>_ s. (Return (), s))
      else (Return (), s))"

text \<open>
  \<open>quit'\<close> is the \<^verbatim>\<open>quit\<close> the object has: the one above, or a subclass's.
  \<open>exc_type'\<close> is \<^verbatim>\<open>None\<close> when the scope ends without an exception. Membership in a
  tuple of classes compares with each class itself.
\<close>

definition aexit ::
  "hierarchy \<Rightarrow> (rat option or_default \<Rightarrow> smtp_connection \<Rightarrow> response result \<times> smtp_connection)
     \<Rightarrow> smtp_connection \<Rightarrow> exc_class option \<Rightarrow> unit result \<times> smtp_connection" where
  "aexit H quit' s exc_type' =
     (let is_connection_error =
            (exc_type' \<in> set [Some ConnectionError, Some (SMTP SMTPTimeoutError)])
      in if is_connection_error \<or> \<not> is_connected s then close s
         else case quit' Default s of
                (Return r, s) \<Rightarrow> (Return (), s)
              | (Raise err, s) \<Rightarrow>
                  if isinstance H err
                       [ConnectionError, SMTP SMTPResponseException, SMTP SMTPTimeoutError]
                  then close s
                  else (Raise err, s)
              | (Blocked, s) \<Rightarrow> (Blocked, s))"

section \<open>Example inputs\<close>

text \<open>
  A world with no closing transport and one context; a hierarchy in which every class of
  \<^verbatim>\<open>aiosmtplib.errors\<close> derives from \<^verbatim>\<open>Exception\<close> only; three server responses; two
  exceptions of the event loop (a refused connection, a timeout of \<^verbatim>\<open>wait_for\<close>) and one
  of the protocol (the peer reset the connection); and four
  connections: \<open>fresh_conn\<close> is \<^verbatim>\<open>SMTPConnection()\<close>, \<open>open_conn\<close> is \<open>fresh_conn\<close> after a
  \<^verbatim>\<open>connect()\<close> that opened transport 7 and read \<^verbatim>\<open>220 ready\<close>, \<open>dropped_conn\<close> is
  \<open>open_conn\<close> after the peer closed the transport, and \<open>half_open_conn\<close> is \<open>open_conn\<close>
  without its protocol.
\<close>

definition world0 :: world where
  "world0 = \<lparr>closing = (\<lambda>t. False), contexts = [create_default_context SERVER_AUTH], trace = []\<rparr>"

definition flat_hierarchy :: hierarchy where
  "flat_hierarchy = (\<lambda>c. [Exception, BaseException])"

definition ready :: response where
  "ready = \<lparr>code = 220, message = ''ready''\<rparr>"

definition busy :: response where
  "busy = \<lparr>code = 554, message = ''no service''\<rparr>"

definition unavailable :: response where
  "unavailable = \<lparr>code = 421, message = ''retry in 5 minutes''\<rparr>"

definition fresh_conn :: smtp_connection where
  "fresh_conn =
     \<lparr>closing = (\<lambda>t. False), contexts = [create_default_context SERVER_AUTH], trace = [],
      protocol = None, transport = None,
      hostname = Some ''localhost'', port = None, timeout = Some 60,
      use_tls = False, priv_source_address = None, validate_certs = True,
      client_cert = None, client_key = None, tls_context = None, cert_bundle = None,
      loop = 0, connect_lock = False\<rparr>"

definition open_conn :: smtp_connection where
  "open_conn =
     fresh_conn\<lparr>trace := [CreateConnection (Some ''localhost'') (Some 25) None (Some 60),
                      ReadResponse (Some 60)],
           protocol := Some (SMTPProtocol 0), transport := Some 7, port := Some 25,
           connect_lock := True\<rparr>"

definition dropped_conn :: smtp_connection where
  "dropped_conn = open_conn\<lparr>closing := (\<lambda>t. t = 7)\<rparr>"

definition half_open_conn :: smtp_connection where
  "half_open_conn = open_conn\<lparr>protocol := None\<rparr>"

definition refused :: exn where
  "refused = Exn ConnectionRefusedError (Text ''Connection refused'')"

definition slow :: exn where
  "slow = Exn AsyncioTimeoutError (Text [])"

definition reset :: exn where
  "reset = Exn ConnectionResetError (Text ''Connection reset by peer'')"

section \<open>Closing\<close>

lemma close_returns:
  "close s = (Return (),
     s\<lparr>closing := (case transport s of Some t \<Rightarrow> (closing s)(t := True) | None \<Rightarrow> closing s),
       connect_lock := False, protocol := None, transport := None\<rparr>)"
  by (cases "transport s") (auto simp: close_def lock_release_def Let_def fun_upd_idem)

lemma close_times_Suc: "close_times (Suc n) s = close s"
proof (induction n arbitrary: s)
  case 0
  show ?case by (simp add: and_then_def close_returns)
next
  case (Suc n)
  have "close_times (Suc (Suc n)) s = close_times (Suc n) (snd (close s))"
    by (simp add: and_then_def close_returns)
  also have "\<dots> = close (snd (close s))" by (rule Suc.IH)
  also have "\<dots> = close s" by (simp add: close_returns)
  finally show ?case .
qed

text \<open>
  Claim C4. \<^verbatim>\<open>close()\<close> is idempotent and total: from any state, a sequence of one or
  more calls does what one call does; that call returns (it never raises), and afterwards
  \<open>is_connected\<close> is false, the lock is free and the transport and protocol references
  are absent.
\<close>

theorem close_idempotent_total:
  "close_times (Suc n) s = close s
   \<and> fst (close s) = Return ()
   \<and> \<not> is_connected (snd (close s))
   \<and> \<not> connect_lock (snd (close s))
   \<and> transport (snd (close s)) = None
   \<and> protocol (snd (close s)) = None"
  by (simp add: close_times_Suc close_returns is_connected_def del: close_times.simps)

theorem close_idempotent_total_witness:
  "is_connected open_conn \<and> connect_lock open_conn
   \<and> close_times (Suc 2) open_conn = close open_conn
   \<and> fst (close open_conn) = Return ()
   \<and> \<not> is_connected (snd (close open_conn))
   \<and> \<not> connect_lock (snd (close open_conn))
   \<and> transport (snd (close open_conn)) = None
   \<and> protocol (snd (close open_conn)) = None"
  using close_idempotent_total [of 2 open_conn]
  by (simp add: open_conn_def fresh_conn_def is_connected_def del: close_times.simps)

section \<open>The TLS context\<close>

lemma get_tls_context_given:
  "tls_context s = Some r \<Longrightarrow> get_tls_context s = (Return r, s)"
  by (simp add: get_tls_context_def)

lemma get_tls_context_built:
  "tls_context s = None \<Longrightarrow>
   get_tls_context s =
     (Return (length (contexts s)),
      s\<lparr>contexts := contexts s @
         [\<lparr>purpose = SERVER_AUTH, check_hostname = validate_certs s,
           verify_mode = (if validate_certs s then CERT_REQUIRED else CERT_NONE),
           verify_locations = (case cert_bundle s of Some b \<Rightarrow> [b] | None \<Rightarrow> []),
           cert_chain = (case client_cert s of Some c \<Rightarrow> [(c, client_key s)] | None \<Rightarrow> [])\<rparr>]\<rparr>)"
  by (simp add: get_tls_context_def create_default_context_def set_verify_mode_def Let_def
           split: option.split)

lemma get_tls_context_frame:
  "\<exists>r cs. get_tls_context s = (Return r, s\<lparr>contexts := contexts s @ cs\<rparr>)"
proof (cases "tls_context s")
  case None
  then show ?thesis by (metis get_tls_context_built)
next
  case (Some r)
  then have "get_tls_context s = (Return r, s\<lparr>contexts := contexts s @ []\<rparr>)"
    by (simp add: get_tls_context_given)
  then show ?thesis by blast
qed

text \<open>
  Claim C9. \<^verbatim>\<open>_get_tls_context\<close> returns a supplied context as it is and leaves the state
  alone. Otherwise it returns a new client-purpose context in which host-name checking
  is \<open>validate_certs\<close> and the verify mode is \<^verbatim>\<open>CERT_REQUIRED\<close> when \<open>validate_certs\<close> holds
  and \<^verbatim>\<open>CERT_NONE\<close> when not, with the certificate bundle (when given) loaded as a verify
  location and the client certificate (when given) loaded with the client key. It always
  returns, and every context that existed before is unchanged.
\<close>

theorem get_tls_context_builds:
  "(\<forall>r. tls_context s = Some r \<longrightarrow> get_tls_context s = (Return r, s))
   \<and> (tls_context s = None \<longrightarrow>
        get_tls_context s =
          (Return (length (contexts s)),
           s\<lparr>contexts := contexts s @
              [\<lparr>purpose = SERVER_AUTH, check_hostname = validate_certs s,
                verify_mode = (if validate_certs s then CERT_REQUIRED else CERT_NONE),
                verify_locations = (case cert_bundle s of Some b \<Rightarrow> [b] | None \<Rightarrow> []),
                cert_chain =
                  (case client_cert s of Some c \<Rightarrow> [(c, client_key s)] | None \<Rightarrow> [])\<rparr>]\<rparr>))
   \<and> (\<exists>r. fst (get_tls_context s) = Return r)
   \<and> take (length (contexts s)) (contexts (snd (get_tls_context s))) = contexts s"
proof (cases "tls_context s")
  case None
  show ?thesis
    using None by (simp add: get_tls_context_built [OF None])
next
  case (Some r)
  then show ?thesis by (simp add: get_tls_context_given)
qed

theorem get_tls_context_builds_witness:
  "get_tls_context (fresh_conn\<lparr>tls_context := Some 0\<rparr>) = (Return 0, fresh_conn\<lparr>tls_context := Some 0\<rparr>)
   \<and> get_tls_context (fresh_conn\<lparr>validate_certs := False, cert_bundle := Some ''ca.pem'',
                              client_cert := Some ''me.pem'', client_key := Some ''me.key''\<rparr>)
       = (Return 1,
          fresh_conn\<lparr>validate_certs := False, cert_bundle := Some ''ca.pem'',
                client_cert := Some ''me.pem'', client_key := Some ''me.key'',
                contexts :=
                  [create_default_context SERVER_AUTH,
                   \<lparr>purpose = SERVER_AUTH, check_hostname = False, verify_mode = CERT_NONE,
                    verify_locations = [''ca.pem''],
                    cert_chain = [(''me.pem'', Some ''me.key'')]\<rparr>]\<rparr>)"
  using get_tls_context_builds [of "fresh_conn\<lparr>tls_context := Some 0\<rparr>"]
    get_tls_context_builds [of "fresh_conn\<lparr>validate_certs := False, cert_bundle := Some ''ca.pem'',
                              client_cert := Some ''me.pem'', client_key := Some ''me.key''\<rparr>"]
  by (simp add: fresh_conn_def)

section \<open>Stored settings\<close>

text \<open>Each conditional assignment of \<open>connect_settings\<close> as one update of its field.\<close>

lemma store_option:
  "(case x of Some v \<Rightarrow> s\<lparr>hostname := Some v\<rparr> | None \<Rightarrow> s)
     = s\<lparr>hostname := (case x of Some v \<Rightarrow> Some v | None \<Rightarrow> hostname s)\<rparr>"
  "(case y of Some v \<Rightarrow> s\<lparr>loop := v\<rparr> | None \<Rightarrow> s)
     = s\<lparr>loop := (case y of Some v \<Rightarrow> v | None \<Rightarrow> loop s)\<rparr>"
  "(case b of Some v \<Rightarrow> s\<lparr>use_tls := v\<rparr> | None \<Rightarrow> s)
     = s\<lparr>use_tls := (case b of Some v \<Rightarrow> v | None \<Rightarrow> use_tls s)\<rparr>"
  "(case b of Some v \<Rightarrow> s\<lparr>validate_certs := v\<rparr> | None \<Rightarrow> s)
     = s\<lparr>validate_certs := (case b of Some v \<Rightarrow> v | None \<Rightarrow> validate_certs s)\<rparr>"
  "(case p of Some v \<Rightarrow> s\<lparr>port := Some v\<rparr> | None \<Rightarrow> s)
     = s\<lparr>port := (case p of Some v \<Rightarrow> Some v | None \<Rightarrow> port s)\<rparr>"
  "(if port s = None then s\<lparr>port := Some d\<rparr> else s)
     = s\<lparr>port := (if port s = None then Some d else port s)\<rparr>"
  by (simp_all split: option.split)

lemma store_or_default:
  "(case t of Value v \<Rightarrow> s\<lparr>timeout := v\<rparr> | Default \<Rightarrow> s)
     = s\<lparr>timeout := (case t of Value v \<Rightarrow> v | Default \<Rightarrow> timeout s)\<rparr>"
  "(case x of Value v \<Rightarrow> s\<lparr>priv_source_address := v\<rparr> | Default \<Rightarrow> s)
     = s\<lparr>priv_source_address := (case x of Value v \<Rightarrow> v | Default \<Rightarrow> priv_source_address s)\<rparr>"
  "(case x of Value v \<Rightarrow> s\<lparr>client_cert := v\<rparr> | Default \<Rightarrow> s)
     = s\<lparr>client_cert := (case x of Value v \<Rightarrow> v | Default \<Rightarrow> client_cert s)\<rparr>"
  "(case x of Value v \<Rightarrow> s\<lparr>client_key := v\<rparr> | Default \<Rightarrow> s)
     = s\<lparr>client_key := (case x of Value v \<Rightarrow> v | Default \<Rightarrow> client_key s)\<rparr>"
  "(case c of Value v \<Rightarrow> s\<lparr>tls_context := v\<rparr> | Default \<Rightarrow> s)
     = s\<lparr>tls_context := (case c of Value v \<Rightarrow> v | Default \<Rightarrow> tls_context s)\<rparr>"
  "(case x of Value v \<Rightarrow> s\<lparr>cert_bundle := v\<rparr> | Default \<Rightarrow> s)
     = s\<lparr>cert_bundle := (case x of Value v \<Rightarrow> v | Default \<Rightarrow> cert_bundle s)\<rparr>"
  by (simp_all split: or_default.split)

lemma connect_settings_eq:
  "connect_settings s a =
     s\<lparr>hostname := (case arg_hostname a of Some v \<Rightarrow> Some v | None \<Rightarrow> hostname s),
       loop := (case arg_loop a of Some v \<Rightarrow> v | None \<Rightarrow> loop s),
       use_tls := (case arg_use_tls a of Some v \<Rightarrow> v | None \<Rightarrow> use_tls s),
       validate_certs := (case arg_validate_certs a of Some v \<Rightarrow> v | None \<Rightarrow> validate_certs s),
       port := (case arg_port a of
                  Some v \<Rightarrow> Some v
                | None \<Rightarrow>
                    (case port s of
                       Some p \<Rightarrow> Some p
                     | None \<Rightarrow>
                         Some (if (case arg_use_tls a of Some v \<Rightarrow> v | None \<Rightarrow> use_tls s)
                               then SMTP_TLS_PORT else SMTP_PORT))),
       timeout := (case arg_timeout a of Value v \<Rightarrow> v | Default \<Rightarrow> timeout s),
       priv_source_address :=
         (case arg_source_address a of Value v \<Rightarrow> v | Default \<Rightarrow> priv_source_address s),
       client_cert := (case arg_client_cert a of Value v \<Rightarrow> v | Default \<Rightarrow> client_cert s),
       client_key := (case arg_client_key a of Value v \<Rightarrow> v | Default \<Rightarrow> client_key s),
       tls_context := (case arg_tls_context a of Value v \<Rightarrow> v | Default \<Rightarrow> tls_context s),
       cert_bundle := (case arg_cert_bundle a of Value v \<Rightarrow> v | Default \<Rightarrow> cert_bundle s)\<rparr>"
proof -
  have port_eq:
    "(if (case arg_port a of None \<Rightarrow> port s | Some v \<Rightarrow> Some v) = None
      then Some d else (case arg_port a of None \<Rightarrow> port s | Some v \<Rightarrow> Some v))
     = (case arg_port a of Some v \<Rightarrow> Some v
        | None \<Rightarrow> (case port s of Some p \<Rightarrow> Some p | None \<Rightarrow> Some d))" for d
    by (simp split: option.split)
  show ?thesis
    unfolding connect_settings_def
    by (simp add: Let_def store_option store_or_default port_eq
             cong: option.case_cong or_default.case_cong if_cong)
qed

lemma connect_settings_fields:
  "hostname (connect_settings s a)
     = (case arg_hostname a of Some v \<Rightarrow> Some v | None \<Rightarrow> hostname s)"
  "loop (connect_settings s a) = (case arg_loop a of Some v \<Rightarrow> v | None \<Rightarrow> loop s)"
  "use_tls (connect_settings s a) = (case arg_use_tls a of Some v \<Rightarrow> v | None \<Rightarrow> use_tls s)"
  "validate_certs (connect_settings s a)
     = (case arg_validate_certs a of Some v \<Rightarrow> v | None \<Rightarrow> validate_certs s)"
  "port (connect_settings s a)
     = (case arg_port a of
          Some v \<Rightarrow> Some v
        | None \<Rightarrow>
            (case port s of
               Some p \<Rightarrow> Some p
             | None \<Rightarrow>
                 Some (if (case arg_use_tls a of Some v \<Rightarrow> v | None \<Rightarrow> use_tls s)
                       then SMTP_TLS_PORT else SMTP_PORT)))"
  "timeout (connect_settings s a) = (case arg_timeout a of Value v \<Rightarrow> v | Default \<Rightarrow> timeout s)"
  "priv_source_address (connect_settings s a)
     = (case arg_source_address a of Value v \<Rightarrow> v | Default \<Rightarrow> priv_source_address s)"
  "client_cert (connect_settings s a)
     = (case arg_client_cert a of Value v \<Rightarrow> v | Default \<Rightarrow> client_cert s)"
  "client_key (connect_settings s a)
     = (case arg_client_key a of Value v \<Rightarrow> v | Default \<Rightarrow> client_key s)"
  "tls_context (connect_settings s a)
     = (case arg_tls_context a of Value v \<Rightarrow> v | Default \<Rightarrow> tls_context s)"
  "cert_bundle (connect_settings s a)
     = (case arg_cert_bundle a of Value v \<Rightarrow> v | Default \<Rightarrow> cert_bundle s)"
  by (simp_all add: connect_settings_eq)

lemma connect_settings_lock:
  "connect_settings (s\<lparr>connect_lock := b\<rparr>) a = (connect_settings s a)\<lparr>connect_lock := b\<rparr>"
  by (simp add: connect_settings_eq cong: option.case_cong or_default.case_cong if_cong)

lemma connect_settings_frame:
  "connect_lock (connect_settings s a) = connect_lock s"
  "transport (connect_settings s a) = transport s"
  "protocol (connect_settings s a) = protocol s"
  "closing (connect_settings s a) = closing s"
  "contexts (connect_settings s a) = contexts s"
  "trace (connect_settings s a) = trace s"
  by (simp_all add: connect_settings_eq)

lemma connect_settings_port: "port (connect_settings s a) \<noteq> None"
  by (simp add: connect_settings_eq split: option.split)

section \<open>Opening the connection\<close>

lemma create_connection_settings:
  assumes "create_connection H s opened greeting = (r, s')"
  shows "hostname s' = hostname s \<and> port s' = port s \<and> timeout s' = timeout s
     \<and> use_tls s' = use_tls s \<and> priv_source_address s' = priv_source_address s
     \<and> validate_certs s' = validate_certs s \<and> client_cert s' = client_cert s
     \<and> client_key s' = client_key s \<and> tls_context s' = tls_context s
     \<and> cert_bundle s' = cert_bundle s \<and> loop s' = loop s"
proof -
  obtain x cs where tls: "get_tls_context s = (Return x, s\<lparr>contexts := contexts s @ cs\<rparr>)"
    using get_tls_context_frame by blast
  show ?thesis
    using assms
    by (auto simp: create_connection_def and_then_def close_returns tls Let_def
             split: if_splits outcome.splits)
qed

lemma create_connection_trace:
  assumes "create_connection H s opened greeting = (r, s')"
  shows "trace s' = trace s
     \<or> (\<exists>c. take (Suc (length (trace s))) (trace s')
              = trace s @ [CreateConnection (hostname s) (port s) c (timeout s)])"
proof -
  obtain x cs where tls: "get_tls_context s = (Return x, s\<lparr>contexts := contexts s @ cs\<rparr>)"
    using get_tls_context_frame by blast
  show ?thesis
    using assms
    by (auto simp: create_connection_def and_then_def close_returns tls Let_def
             split: if_splits outcome.splits)
qed

lemma create_connection_greeting:
  assumes "hostname s \<noteq> None" and "port s \<noteq> None"
    and "create_connection H s (Yields t) greeting = (r, s')"
  shows "(\<forall>e. greeting = Throws e \<and> isinstance H e [AsyncioTimeoutError] \<longrightarrow>
            r = Raise (Exn (SMTP SMTPConnectTimeoutError)
                         (Text ''Timed out waiting for server ready message''))
            \<and> transport s' = None \<and> protocol s' = None \<and> \<not> connect_lock s' \<and> closing s' t)
       \<and> (\<forall>p. greeting = Yields p \<and> code p \<noteq> 220 \<longrightarrow>
            r = Raise (Exn (SMTP SMTPConnectError) (ResponseStr p))
            \<and> transport s' = None \<and> protocol s' = None \<and> \<not> connect_lock s' \<and> closing s' t)
       \<and> (\<forall>p. greeting = Yields p \<and> code p = 220 \<longrightarrow>
            r = Return p \<and> transport s' = Some t \<and> protocol s' = Some (SMTPProtocol (loop s))
            \<and> connect_lock s' = connect_lock s \<and> closing s' = closing s)"
proof -
  obtain x cs where tls: "get_tls_context s = (Return x, s\<lparr>contexts := contexts s @ cs\<rparr>)"
    using get_tls_context_frame by blast
  show ?thesis
    using assms
    by (auto simp: create_connection_def and_then_def close_returns tls Let_def
                   SMTPStatus_ready_def
             split: if_splits)
qed

section \<open>Connecting\<close>

lemma connect_blocked: "connect_lock s \<Longrightarrow> connect H s a opened greeting = (Blocked, s)"
  by (simp add: connect_def)

lemma connect_unlocked:
  "\<not> connect_lock s \<Longrightarrow>
   connect H s a opened greeting =
     (if tls_context (connect_settings s a) \<noteq> None \<and> client_cert (connect_settings s a) \<noteq> None
      then (Raise (Exn ValueError
                     (Text ''Either a TLS context or a certificate/key must be provided'')),
            (connect_settings s a)\<lparr>connect_lock := True\<rparr>)
      else create_connection H ((connect_settings s a)\<lparr>connect_lock := True\<rparr>) opened greeting)"
  by (simp add: connect_def connect_settings_lock Let_def)

lemma connect_rejects:
  assumes "\<not> connect_lock s"
    and "tls_context (connect_settings s a) \<noteq> None \<and> client_cert (connect_settings s a) \<noteq> None"
  shows "connect H s a opened greeting =
     (Raise (Exn ValueError (Text ''Either a TLS context or a certificate/key must be provided'')),
      (connect_settings s a)\<lparr>connect_lock := True\<rparr>)"
  using assms by (simp add: connect_unlocked)

lemma connect_proceeds:
  assumes "\<not> connect_lock s"
    and "\<not> (tls_context (connect_settings s a) \<noteq> None
            \<and> client_cert (connect_settings s a) \<noteq> None)"
  shows "connect H s a opened greeting =
     create_connection H ((connect_settings s a)\<lparr>connect_lock := True\<rparr>) opened greeting"
  using assms by (auto simp: connect_unlocked)

lemma connect_keeps_settings:
  assumes "\<not> connect_lock s" and "connect H s a opened greeting = (r, s')"
  shows "hostname s' = hostname (connect_settings s a)
     \<and> port s' = port (connect_settings s a)
     \<and> timeout s' = timeout (connect_settings s a)
     \<and> use_tls s' = use_tls (connect_settings s a)
     \<and> priv_source_address s' = priv_source_address (connect_settings s a)
     \<and> validate_certs s' = validate_certs (connect_settings s a)
     \<and> client_cert s' = client_cert (connect_settings s a)
     \<and> client_key s' = client_key (connect_settings s a)
     \<and> tls_context s' = tls_context (connect_settings s a)
     \<and> cert_bundle s' = cert_bundle (connect_settings s a)
     \<and> loop s' = loop (connect_settings s a)"
proof (cases "tls_context (connect_settings s a) \<noteq> None
              \<and> client_cert (connect_settings s a) \<noteq> None")
  case True
  from assms(2) have "s' = (connect_settings s a)\<lparr>connect_lock := True\<rparr>"
    unfolding connect_rejects [OF assms(1) True] by simp
  then show ?thesis by simp
next
  case False
  from assms(2) have
    "create_connection H ((connect_settings s a)\<lparr>connect_lock := True\<rparr>) opened greeting = (r, s')"
    unfolding connect_proceeds [OF assms(1) False] .
  from create_connection_settings [OF this] show ?thesis by simp
qed

lemma connect_trace:
  assumes "\<not> connect_lock s" and "connect H s a opened greeting = (r, s')"
  shows "trace s' = trace s
     \<or> (\<exists>c. take (Suc (length (trace s))) (trace s')
              = trace s @ [CreateConnection (hostname s') (port s') c (timeout s')])"
proof (cases "tls_context (connect_settings s a) \<noteq> None
              \<and> client_cert (connect_settings s a) \<noteq> None")
  case True
  from assms(2) have "s' = (connect_settings s a)\<lparr>connect_lock := True\<rparr>"
    unfolding connect_rejects [OF assms(1) True] by simp
  then show ?thesis by (simp add: connect_settings_frame)
next
  case False
  from assms(2) have run:
    "create_connection H ((connect_settings s a)\<lparr>connect_lock := True\<rparr>) opened greeting = (r, s')"
    unfolding connect_proceeds [OF assms(1) False] .
  from create_connection_trace [OF run] connect_keeps_settings [OF assms]
  show ?thesis by (simp add: connect_settings_frame)
qed

lemma init_fresh: "init init_defaults 0 world0 = Inr fresh_conn"
  by (simp add: init_def init_defaults_def world0_def fresh_conn_def DEFAULT_TIMEOUT_def)

lemma init_lock_free: "init ia l w = Inr s \<Longrightarrow> \<not> connect_lock s"
  by (auto simp: init_def split: if_splits)

lemma connect_fresh:
  "connect flat_hierarchy fresh_conn connect_defaults (Yields 7) (Yields ready) = (Return ready, open_conn)"
  by (simp add: connect_unlocked fresh_conn_def connect_settings_eq connect_defaults_def
                create_connection_def and_then_def ready_def SMTPStatus_ready_def
                open_conn_def SMTP_PORT_def Let_def)

lemma connect_fresh_refused:
  "connect flat_hierarchy fresh_conn
     (connect_defaults\<lparr>arg_hostname := Some ''mail.example'', arg_timeout := Value None,
                       arg_use_tls := Some False\<rparr>)
     (Throws refused) (Yields ready)
   = (Raise (Exn (SMTP SMTPConnectError)
               (ConnectFailed (Some ''mail.example'') (Some 25) (Text ''Connection refused''))),
      fresh_conn\<lparr>hostname := Some ''mail.example'', timeout := None, port := Some 25,
                 trace := [CreateConnection (Some ''mail.example'') (Some 25) None None]\<rparr>)"
  by (simp add: connect_proceeds connect_settings_fields fresh_conn_def connect_settings_eq
                connect_defaults_def create_connection_def and_then_def refused_def
                isinstance_def issubclass_def close_returns
                SMTP_PORT_def Let_def)

text \<open>
  Claim C3, as amended. A \<^verbatim>\<open>connect\<close> on a held lock suspends on the lock and stores
  nothing. A \<^verbatim>\<open>connect\<close> on a free lock stores its arguments as follows, whatever the
  outcome. For \<open>timeout\<close>, \<open>source_address\<close>, \<open>client_cert\<close>, \<open>client_key\<close>, \<open>tls_context\<close>
  and \<open>cert_bundle\<close> (default \<^verbatim>\<open>_default\<close>): an argument not supplied leaves the stored
  value unchanged, and a supplied one, \<^verbatim>\<open>None\<close> included, replaces it. For \<open>hostname\<close>,
  \<open>use_tls\<close> and \<open>validate_certs\<close> (default \<^verbatim>\<open>None\<close>): a value other than \<^verbatim>\<open>None\<close>,
  \<^verbatim>\<open>False\<close> included, replaces the stored one, and \<^verbatim>\<open>None\<close>, passed or not, leaves it
  unchanged. For \<open>port\<close>: a value other than \<^verbatim>\<open>None\<close> replaces the stored one; otherwise a
  stored port is kept, and a stored \<^verbatim>\<open>None\<close> becomes 465 when \<open>use_tls\<close> holds after the
  call and 25 when not.
\<close>

theorem connect_stores_arguments:
  "(connect_lock s \<longrightarrow> connect H s a opened greeting = (Blocked, s))
   \<and> (\<not> connect_lock s \<and> connect H s a opened greeting = (r, s') \<longrightarrow>
        timeout s' = (case arg_timeout a of Value v \<Rightarrow> v | Default \<Rightarrow> timeout s)
        \<and> priv_source_address s'
            = (case arg_source_address a of Value v \<Rightarrow> v | Default \<Rightarrow> priv_source_address s)
        \<and> client_cert s' = (case arg_client_cert a of Value v \<Rightarrow> v | Default \<Rightarrow> client_cert s)
        \<and> client_key s' = (case arg_client_key a of Value v \<Rightarrow> v | Default \<Rightarrow> client_key s)
        \<and> tls_context s' = (case arg_tls_context a of Value v \<Rightarrow> v | Default \<Rightarrow> tls_context s)
        \<and> cert_bundle s' = (case arg_cert_bundle a of Value v \<Rightarrow> v | Default \<Rightarrow> cert_bundle s)
        \<and> hostname s' = (case arg_hostname a of Some v \<Rightarrow> Some v | None \<Rightarrow> hostname s)
        \<and> use_tls s' = (case arg_use_tls a of Some v \<Rightarrow> v | None \<Rightarrow> use_tls s)
        \<and> validate_certs s'
            = (case arg_validate_certs a of Some v \<Rightarrow> v | None \<Rightarrow> validate_certs s)
        \<and> port s'
            = (case arg_port a of
                 Some v \<Rightarrow> Some v
               | None \<Rightarrow>
                   (case port s of
                      Some p \<Rightarrow> Some p
                    | None \<Rightarrow> Some (if use_tls s' then 465 else 25))))"
  (is "?held \<and> (?free \<longrightarrow> ?stored)")
proof -
  have held: ?held
    by (simp add: connect_blocked)
  have stored: "?free \<longrightarrow> ?stored"
  proof
    assume pre: ?free
    then have free: "\<not> connect_lock s"
      and run: "connect H s a opened greeting = (r, s')"
      by simp_all
    from connect_keeps_settings [OF free run] show ?stored
      by (simp add: connect_settings_fields SMTP_TLS_PORT_def SMTP_PORT_def
               cong: option.case_cong)
  qed
  from held stored show ?thesis by (rule conjI)
qed

theorem connect_stores_arguments_witness:
  "timeout (snd (connect flat_hierarchy fresh_conn
                  (connect_defaults\<lparr>arg_hostname := Some ''mail.example'',
                                    arg_timeout := Value None, arg_use_tls := Some False\<rparr>)
                  (Throws refused) (Yields ready))) = None
   \<and> hostname (snd (connect flat_hierarchy fresh_conn
                  (connect_defaults\<lparr>arg_hostname := Some ''mail.example'',
                                    arg_timeout := Value None, arg_use_tls := Some False\<rparr>)
                  (Throws refused) (Yields ready))) = Some ''mail.example''
   \<and> port (snd (connect flat_hierarchy fresh_conn
                  (connect_defaults\<lparr>arg_hostname := Some ''mail.example'',
                                    arg_timeout := Value None, arg_use_tls := Some False\<rparr>)
                  (Throws refused) (Yields ready))) = Some 25
   \<and> cert_bundle (snd (connect flat_hierarchy fresh_conn
                  (connect_defaults\<lparr>arg_hostname := Some ''mail.example'',
                                    arg_timeout := Value None, arg_use_tls := Some False\<rparr>)
                  (Throws refused) (Yields ready))) = cert_bundle fresh_conn
   \<and> connect_lock open_conn
   \<and> connect flat_hierarchy open_conn (connect_defaults\<lparr>arg_timeout := Value None\<rparr>)
        (Yields 8) (Yields ready) = (Blocked, open_conn)"
proof -
  have free: "\<not> connect_lock fresh_conn" by (simp add: fresh_conn_def)
  have held: "connect_lock open_conn" by (simp add: open_conn_def fresh_conn_def)
  have stored:
    "timeout (snd (connect flat_hierarchy fresh_conn
                  (connect_defaults\<lparr>arg_hostname := Some ''mail.example'',
                                    arg_timeout := Value None, arg_use_tls := Some False\<rparr>)
                  (Throws refused) (Yields ready))) = None
   \<and> hostname (snd (connect flat_hierarchy fresh_conn
                  (connect_defaults\<lparr>arg_hostname := Some ''mail.example'',
                                    arg_timeout := Value None, arg_use_tls := Some False\<rparr>)
                  (Throws refused) (Yields ready))) = Some ''mail.example''
   \<and> port (snd (connect flat_hierarchy fresh_conn
                  (connect_defaults\<lparr>arg_hostname := Some ''mail.example'',
                                    arg_timeout := Value None, arg_use_tls := Some False\<rparr>)
                  (Throws refused) (Yields ready))) = Some 25
   \<and> cert_bundle (snd (connect flat_hierarchy fresh_conn
                  (connect_defaults\<lparr>arg_hostname := Some ''mail.example'',
                                    arg_timeout := Value None, arg_use_tls := Some False\<rparr>)
                  (Throws refused) (Yields ready))) = cert_bundle fresh_conn"
    using connect_stores_arguments
            [where s = fresh_conn and H = flat_hierarchy
               and a = "connect_defaults\<lparr>arg_hostname := Some ''mail.example'',
                                    arg_timeout := Value None, arg_use_tls := Some False\<rparr>"
               and opened = "Throws refused" and greeting = "Yields ready"
               and r = "fst (connect flat_hierarchy fresh_conn
                  (connect_defaults\<lparr>arg_hostname := Some ''mail.example'',
                                    arg_timeout := Value None, arg_use_tls := Some False\<rparr>)
                  (Throws refused) (Yields ready))"
               and s' = "snd (connect flat_hierarchy fresh_conn
                  (connect_defaults\<lparr>arg_hostname := Some ''mail.example'',
                                    arg_timeout := Value None, arg_use_tls := Some False\<rparr>)
                  (Throws refused) (Yields ready))"]
          free
    by (simp add: connect_defaults_def fresh_conn_def)
  have blocked:
    "connect flat_hierarchy open_conn (connect_defaults\<lparr>arg_timeout := Value None\<rparr>)
        (Yields 8) (Yields ready) = (Blocked, open_conn)"
    using connect_stores_arguments
            [where s = open_conn and H = flat_hierarchy
               and a = "connect_defaults\<lparr>arg_timeout := Value None\<rparr>"
               and opened = "Yields 8" and greeting = "Yields ready"]
          held
    by blast
  from stored held blocked show ?thesis by simp
qed

text \<open>
  Claim C3 as stated fails for the arguments whose default is \<^verbatim>\<open>None\<close>. A \<^verbatim>\<open>connect()\<close>
  that passes no port changes a stored port of \<^verbatim>\<open>None\<close> to 25. A \<^verbatim>\<open>connect(port=None)\<close>
  on a connection whose stored port is 25 leaves 25 stored, and a
  \<^verbatim>\<open>connect(hostname=None)\<close> leaves the stored host name: an explicit \<^verbatim>\<open>None\<close> is the same
  call as no argument and overrides nothing. And on a held lock nothing is stored at all:
  \<^verbatim>\<open>connect(timeout=None)\<close> on \<open>open_conn\<close> leaves the stored timeout at 60.
\<close>

theorem connect_null_arguments_counterexample:
  "port fresh_conn = None
   \<and> arg_port connect_defaults = None
   \<and> port (snd (connect flat_hierarchy fresh_conn connect_defaults (Yields 7) (Yields ready)))
       = Some 25
   \<and> port open_conn = Some 25
   \<and> port (snd (connect flat_hierarchy (snd (close open_conn))
                  (connect_defaults\<lparr>arg_port := None\<rparr>) (Yields 8) (Yields ready)))
       = Some 25
   \<and> hostname (snd (connect flat_hierarchy fresh_conn
                      (connect_defaults\<lparr>arg_hostname := None\<rparr>) (Yields 7) (Yields ready)))
       = Some ''localhost''
   \<and> timeout (snd (connect flat_hierarchy open_conn
                     (connect_defaults\<lparr>arg_timeout := Value None\<rparr>) (Yields 8) (Yields ready)))
       = Some 60"
proof -
  have a: "\<not> connect_lock fresh_conn" by (simp add: fresh_conn_def)
  have b: "\<not> connect_lock (snd (close open_conn))" by (simp add: close_returns)
  have c: "connect_lock open_conn" by (simp add: open_conn_def fresh_conn_def)
  have d: "timeout open_conn = Some 60" by (simp add: open_conn_def fresh_conn_def)
  show ?thesis
    unfolding connect_blocked [OF c] snd_conv d
    using connect_keeps_settings [OF a surjective_pairing,
            of flat_hierarchy connect_defaults "Yields 7" "Yields ready"]
      connect_keeps_settings [OF b surjective_pairing,
            of flat_hierarchy "connect_defaults\<lparr>arg_port := None\<rparr>" "Yields 8" "Yields ready"]
      connect_keeps_settings [OF a surjective_pairing,
            of flat_hierarchy "connect_defaults\<lparr>arg_hostname := None\<rparr>" "Yields 7" "Yields ready"]
    by (simp add: connect_settings_fields connect_defaults_def fresh_conn_def open_conn_def
                  close_returns SMTP_PORT_def)
qed

text \<open>
  When \<^verbatim>\<open>connect\<close> raises, whatever the error, the stored settings are the ones its
  arguments gave: no setting is rolled back. The settings are stored before the network is
  touched: if the call reached a collaborator at all, its first call was
  \<^verbatim>\<open>loop.create_connection\<close> with the stored host, port and timeout.
\<close>

lemma connect_raise_keeps_settings:
  assumes "connect H s a opened greeting = (Raise e, s')"
  shows "hostname s' = (case arg_hostname a of Some v \<Rightarrow> Some v | None \<Rightarrow> hostname s)
     \<and> port s'
         = (case arg_port a of
              Some v \<Rightarrow> Some v
            | None \<Rightarrow>
                (case port s of
                   Some p \<Rightarrow> Some p
                 | None \<Rightarrow> Some (if use_tls s' then SMTP_TLS_PORT else SMTP_PORT)))
     \<and> timeout s' = (case arg_timeout a of Value v \<Rightarrow> v | Default \<Rightarrow> timeout s)
     \<and> use_tls s' = (case arg_use_tls a of Some v \<Rightarrow> v | None \<Rightarrow> use_tls s)
     \<and> validate_certs s'
         = (case arg_validate_certs a of Some v \<Rightarrow> v | None \<Rightarrow> validate_certs s)
     \<and> priv_source_address s'
         = (case arg_source_address a of Value v \<Rightarrow> v | Default \<Rightarrow> priv_source_address s)
     \<and> client_cert s' = (case arg_client_cert a of Value v \<Rightarrow> v | Default \<Rightarrow> client_cert s)
     \<and> client_key s' = (case arg_client_key a of Value v \<Rightarrow> v | Default \<Rightarrow> client_key s)
     \<and> tls_context s' = (case arg_tls_context a of Value v \<Rightarrow> v | Default \<Rightarrow> tls_context s)
     \<and> cert_bundle s' = (case arg_cert_bundle a of Value v \<Rightarrow> v | Default \<Rightarrow> cert_bundle s)
     \<and> (trace s' = trace s
          \<or> (\<exists>c. take (Suc (length (trace s))) (trace s')
                   = trace s @ [CreateConnection (hostname s') (port s') c (timeout s')]))"
proof -
  have free: "\<not> connect_lock s"
    using assms by (auto simp: connect_def)
  from connect_keeps_settings [OF free assms] connect_trace [OF free assms]
  show ?thesis
    by (simp add: connect_settings_fields cong: option.case_cong)
qed

text \<open>
  Claim C10, at its failing inputs. The settings a failed \<^verbatim>\<open>connect\<close> stored do stay, but
  the lock and the references are not always restored. On
  \<^verbatim>\<open>SMTPConnection(tls_context=ctx)\<close>, the call
  \<^verbatim>\<open>connect(hostname="mail.example", timeout=None, client_cert="me.pem")\<close> raises
  \<^verbatim>\<open>ValueError\<close> with the three arguments stored and the lock still held. On
  \<^verbatim>\<open>SMTPConnection()\<close>, a \<^verbatim>\<open>connect(hostname="mail.example")\<close> whose greeting wait raises
  \<^verbatim>\<open>ConnectionResetError\<close> lets that error through with the host name stored, the lock
  held, and the transport and protocol still referenced. When the connection is refused,
  by contrast, the host name is stored and \<^verbatim>\<open>close()\<close> has released the lock.
\<close>

theorem failed_connect_leaves_lock_held:
  "connect H (fresh_conn\<lparr>tls_context := Some 0\<rparr>)
     (connect_defaults\<lparr>arg_hostname := Some ''mail.example'', arg_timeout := Value None,
                       arg_client_cert := Value (Some ''me.pem'')\<rparr>) opened greeting
     = (Raise (Exn ValueError
                 (Text ''Either a TLS context or a certificate/key must be provided'')),
        fresh_conn\<lparr>tls_context := Some 0, hostname := Some ''mail.example'', timeout := None,
                   client_cert := Some ''me.pem'', port := Some 25, connect_lock := True\<rparr>)
   \<and> connect H fresh_conn (connect_defaults\<lparr>arg_hostname := Some ''mail.example''\<rparr>)
       (Yields 7) (Throws reset)
     = (Raise reset,
        fresh_conn\<lparr>hostname := Some ''mail.example'', port := Some 25,
                   trace := [CreateConnection (Some ''mail.example'') (Some 25) None (Some 60),
                             ReadResponse (Some 60)],
                   protocol := Some (SMTPProtocol 0), transport := Some 7,
                   connect_lock := True\<rparr>)
   \<and> is_connected
        (fresh_conn\<lparr>hostname := Some ''mail.example'', port := Some 25,
                   trace := [CreateConnection (Some ''mail.example'') (Some 25) None (Some 60),
                             ReadResponse (Some 60)],
                   protocol := Some (SMTPProtocol 0), transport := Some 7,
                   connect_lock := True\<rparr>)
   \<and> connect H fresh_conn (connect_defaults\<lparr>arg_hostname := Some ''mail.example''\<rparr>)
       (Throws refused) greeting
     = (Raise (Exn (SMTP SMTPConnectError)
                 (ConnectFailed (Some ''mail.example'') (Some 25) (Text ''Connection refused''))),
        fresh_conn\<lparr>hostname := Some ''mail.example'', port := Some 25,
                   trace := [CreateConnection (Some ''mail.example'') (Some 25) None (Some 60)]\<rparr>)"
proof -
  have a: "connect H (fresh_conn\<lparr>tls_context := Some 0\<rparr>)
     (connect_defaults\<lparr>arg_hostname := Some ''mail.example'', arg_timeout := Value None,
                       arg_client_cert := Value (Some ''me.pem'')\<rparr>) opened greeting
     = (Raise (Exn ValueError
                 (Text ''Either a TLS context or a certificate/key must be provided'')),
        fresh_conn\<lparr>tls_context := Some 0, hostname := Some ''mail.example'', timeout := None,
                   client_cert := Some ''me.pem'', port := Some 25, connect_lock := True\<rparr>)"
    by (simp add: connect_unlocked connect_settings_fields connect_settings_eq
                  connect_defaults_def fresh_conn_def SMTP_PORT_def)
  have b: "connect H fresh_conn (connect_defaults\<lparr>arg_hostname := Some ''mail.example''\<rparr>)
       (Yields 7) (Throws reset)
     = (Raise reset,
        fresh_conn\<lparr>hostname := Some ''mail.example'', port := Some 25,
                   trace := [CreateConnection (Some ''mail.example'') (Some 25) None (Some 60),
                             ReadResponse (Some 60)],
                   protocol := Some (SMTPProtocol 0), transport := Some 7,
                   connect_lock := True\<rparr>)"
    by (simp add: connect_unlocked connect_settings_fields connect_settings_eq
                  connect_defaults_def fresh_conn_def SMTP_PORT_def create_connection_def
                  and_then_def reset_def isinstance_def issubclass_def Let_def)
  have c: "is_connected
        (fresh_conn\<lparr>hostname := Some ''mail.example'', port := Some 25,
                   trace := [CreateConnection (Some ''mail.example'') (Some 25) None (Some 60),
                             ReadResponse (Some 60)],
                   protocol := Some (SMTPProtocol 0), transport := Some 7,
                   connect_lock := True\<rparr>)"
    by (simp add: is_connected_def fresh_conn_def)
  have d: "connect H fresh_conn (connect_defaults\<lparr>arg_hostname := Some ''mail.example''\<rparr>)
       (Throws refused) greeting
     = (Raise (Exn (SMTP SMTPConnectError)
                 (ConnectFailed (Some ''mail.example'') (Some 25) (Text ''Connection refused''))),
        fresh_conn\<lparr>hostname := Some ''mail.example'', port := Some 25,
                   trace := [CreateConnection (Some ''mail.example'') (Some 25) None (Some 60)]\<rparr>)"
    by (simp add: connect_unlocked connect_settings_fields connect_settings_eq
                  connect_defaults_def fresh_conn_def SMTP_PORT_def create_connection_def
                  and_then_def refused_def isinstance_def issubclass_def close_returns Let_def)
  from a b c d show ?thesis by blast
qed

text \<open>
  Claim C5, as amended. A TLS context together with a client certificate is refused with
  \<^verbatim>\<open>ValueError\<close>: by the constructor when both are passed to it; by a \<^verbatim>\<open>connect\<close> on a free
  lock whenever both are set once its arguments are stored, each either passed to this
  call or stored before, without any call to the network; and so by the first \<^verbatim>\<open>connect\<close>
  on a constructed object, whichever of the two the constructor got and whichever the
  call. A \<^verbatim>\<open>connect\<close> on a held lock suspends on the lock: the check is not reached.
\<close>

theorem tls_context_excludes_client_cert:
  "(init_tls_context ia \<noteq> None \<and> init_client_cert ia \<noteq> None \<longrightarrow>
      init ia l w
        = Inl (Exn ValueError (Text ''Either a TLS context or a certificate/key must be provided'')))
   \<and> (\<not> connect_lock s
        \<and> (case arg_tls_context a of Value v \<Rightarrow> v | Default \<Rightarrow> tls_context s) \<noteq> None
        \<and> (case arg_client_cert a of Value v \<Rightarrow> v | Default \<Rightarrow> client_cert s) \<noteq> None \<longrightarrow>
      fst (connect H s a opened greeting)
        = Raise (Exn ValueError
                   (Text ''Either a TLS context or a certificate/key must be provided''))
      \<and> trace (snd (connect H s a opened greeting)) = trace s)
   \<and> (init ia l w = Inr s
        \<and> (case arg_tls_context a of Value v \<Rightarrow> v | Default \<Rightarrow> init_tls_context ia) \<noteq> None
        \<and> (case arg_client_cert a of Value v \<Rightarrow> v | Default \<Rightarrow> init_client_cert ia) \<noteq> None \<longrightarrow>
      fst (connect H s a opened greeting)
        = Raise (Exn ValueError
                   (Text ''Either a TLS context or a certificate/key must be provided'')))
   \<and> (connect_lock s \<longrightarrow> connect H s a opened greeting = (Blocked, s))"
proof (intro conjI impI)
  assume "connect_lock s"
  then show "connect H s a opened greeting = (Blocked, s)"
    by (rule connect_blocked)
next
  assume "init_tls_context ia \<noteq> None \<and> init_client_cert ia \<noteq> None"
  then show "init ia l w
        = Inl (Exn ValueError (Text ''Either a TLS context or a certificate/key must be provided''))"
    by (simp add: init_def)
next
  assume h: "\<not> connect_lock s
        \<and> (case arg_tls_context a of Value v \<Rightarrow> v | Default \<Rightarrow> tls_context s) \<noteq> None
        \<and> (case arg_client_cert a of Value v \<Rightarrow> v | Default \<Rightarrow> client_cert s) \<noteq> None"
  then have both: "tls_context (connect_settings s a) \<noteq> None
                   \<and> client_cert (connect_settings s a) \<noteq> None"
    by (simp add: connect_settings_fields)
  from h have free: "\<not> connect_lock s" by simp
  note run = connect_rejects [OF free both, of H opened greeting]
  show "fst (connect H s a opened greeting)
        = Raise (Exn ValueError
                   (Text ''Either a TLS context or a certificate/key must be provided''))"
    by (simp add: run)
  show "trace (snd (connect H s a opened greeting)) = trace s"
    by (simp add: run connect_settings_frame)
next
  assume h: "init ia l w = Inr s
        \<and> (case arg_tls_context a of Value v \<Rightarrow> v | Default \<Rightarrow> init_tls_context ia) \<noteq> None
        \<and> (case arg_client_cert a of Value v \<Rightarrow> v | Default \<Rightarrow> init_client_cert ia) \<noteq> None"
  then have free: "\<not> connect_lock s" using init_lock_free by blast
  from h have stored: "tls_context s = init_tls_context ia \<and> client_cert s = init_client_cert ia"
    by (auto simp: init_def split: if_splits)
  with h have both: "tls_context (connect_settings s a) \<noteq> None
                   \<and> client_cert (connect_settings s a) \<noteq> None"
    by (simp add: connect_settings_fields cong: or_default.case_cong)
  show "fst (connect H s a opened greeting)
        = Raise (Exn ValueError
                   (Text ''Either a TLS context or a certificate/key must be provided''))"
    by (simp add: connect_rejects [OF free both])
qed

theorem tls_context_excludes_client_cert_witness:
  "init (init_defaults\<lparr>init_tls_context := Some 0, init_client_cert := Some ''me.pem''\<rparr>) 0 world0
     = Inl (Exn ValueError (Text ''Either a TLS context or a certificate/key must be provided''))
   \<and> fst (connect flat_hierarchy (fresh_conn\<lparr>tls_context := Some 0\<rparr>)
            (connect_defaults\<lparr>arg_client_cert := Value (Some ''me.pem'')\<rparr>)
            (Yields 7) (Yields ready))
       = Raise (Exn ValueError (Text ''Either a TLS context or a certificate/key must be provided''))
   \<and> fst (connect flat_hierarchy (fresh_conn\<lparr>client_cert := Some ''me.pem''\<rparr>)
            (connect_defaults\<lparr>arg_tls_context := Value (Some 0)\<rparr>)
            (Yields 7) (Yields ready))
       = Raise (Exn ValueError (Text ''Either a TLS context or a certificate/key must be provided''))
   \<and> init (init_defaults\<lparr>init_tls_context := Some 0\<rparr>) 0 world0
       = Inr (fresh_conn\<lparr>tls_context := Some 0\<rparr>)
   \<and> connect_lock open_conn
   \<and> connect flat_hierarchy open_conn
        (connect_defaults\<lparr>arg_tls_context := Value (Some 0),
                          arg_client_cert := Value (Some ''me.pem'')\<rparr>)
        (Yields 8) (Yields ready)
     = (Blocked, open_conn)"
proof -
  have i: "init (init_defaults\<lparr>init_tls_context := Some 0\<rparr>) 0 world0
       = Inr (fresh_conn\<lparr>tls_context := Some 0\<rparr>)"
    by (simp add: init_def init_defaults_def world0_def fresh_conn_def DEFAULT_TIMEOUT_def)
  have held: "connect_lock open_conn"
    by (simp add: open_conn_def fresh_conn_def)
  have blocked: "connect flat_hierarchy open_conn
        (connect_defaults\<lparr>arg_tls_context := Value (Some 0),
                          arg_client_cert := Value (Some ''me.pem'')\<rparr>)
        (Yields 8) (Yields ready)
     = (Blocked, open_conn)"
    using tls_context_excludes_client_cert
            [where s = open_conn and H = flat_hierarchy
               and a = "connect_defaults\<lparr>arg_tls_context := Value (Some 0),
                          arg_client_cert := Value (Some ''me.pem'')\<rparr>"
               and opened = "Yields 8" and greeting = "Yields ready"]
          held
    by blast
  show ?thesis
    unfolding blocked
    using held tls_context_excludes_client_cert
            [of "init_defaults\<lparr>init_tls_context := Some 0, init_client_cert := Some ''me.pem''\<rparr>"
                0 world0 "fresh_conn\<lparr>tls_context := Some 0\<rparr>"
                "connect_defaults\<lparr>arg_client_cert := Value (Some ''me.pem'')\<rparr>"
                flat_hierarchy "Yields 7" "Yields ready"]
          tls_context_excludes_client_cert
            [of "init_defaults\<lparr>init_tls_context := Some 0\<rparr>"
                0 world0 "fresh_conn\<lparr>client_cert := Some ''me.pem''\<rparr>"
                "connect_defaults\<lparr>arg_tls_context := Value (Some 0)\<rparr>"
                flat_hierarchy "Yields 7" "Yields ready"]
          i
    by (simp add: init_defaults_def connect_defaults_def fresh_conn_def)
qed

text \<open>
  Claim C5 as stated fails on a held lock. On \<open>open_conn\<close>, whose lock its successful
  \<^verbatim>\<open>connect()\<close> holds, \<^verbatim>\<open>connect(tls_context=ctx, client_cert="me.pem")\<close> does not raise
  \<^verbatim>\<open>ValueError\<close>: it suspends on the lock, and neither option is stored.
\<close>

theorem tls_options_on_held_lock_counterexample:
  "connect_lock open_conn
   \<and> connect flat_hierarchy open_conn
        (connect_defaults\<lparr>arg_tls_context := Value (Some 0),
                          arg_client_cert := Value (Some ''me.pem'')\<rparr>)
        (Yields 8) (Yields ready)
     = (Blocked, open_conn)
   \<and> fst (connect flat_hierarchy open_conn
            (connect_defaults\<lparr>arg_tls_context := Value (Some 0),
                              arg_client_cert := Value (Some ''me.pem'')\<rparr>)
            (Yields 8) (Yields ready))
     \<noteq> Raise (Exn ValueError
                (Text ''Either a TLS context or a certificate/key must be provided''))
   \<and> tls_context open_conn = None \<and> client_cert open_conn = None"
proof -
  have held: "connect_lock open_conn"
    by (simp add: open_conn_def fresh_conn_def)
  have none: "tls_context open_conn = None \<and> client_cert open_conn = None"
    by (simp add: open_conn_def fresh_conn_def)
  show ?thesis
    using held none by (simp add: connect_blocked [OF held])
qed

text \<open>
  Claim C6. In a \<^verbatim>\<open>connect\<close> that got past the lock and the configuration checks and whose
  transport \<open>t\<close> opened: when waiting for the greeting times out, the call raises
  \<^verbatim>\<open>SMTPConnectTimeoutError\<close> and the connection has been closed (transport \<open>t\<close> closing,
  both references cleared, lock released); when the greeting's code is not 220, the call
  raises \<^verbatim>\<open>SMTPConnectError\<close> carrying \<^verbatim>\<open>str(response)\<close> and the connection has been
  closed in the same way; when the code is 220, the call returns the greeting, with the
  transport and a new protocol stored and the lock still held.
\<close>

theorem connect_greeting_outcomes:
  assumes "\<not> connect_lock s"
    and "hostname (connect_settings s a) \<noteq> None"
    and "tls_context (connect_settings s a) = None \<or> client_cert (connect_settings s a) = None"
    and "connect H s a (Yields t) greeting = (r, s')"
  shows "(\<forall>e. greeting = Throws e \<and> isinstance H e [AsyncioTimeoutError] \<longrightarrow>
            r = Raise (Exn (SMTP SMTPConnectTimeoutError)
                         (Text ''Timed out waiting for server ready message''))
            \<and> transport s' = None \<and> protocol s' = None \<and> \<not> connect_lock s'
            \<and> closing s' t \<and> \<not> is_connected s')
       \<and> (\<forall>p. greeting = Yields p \<and> code p \<noteq> 220 \<longrightarrow>
            r = Raise (Exn (SMTP SMTPConnectError) (ResponseStr p))
            \<and> transport s' = None \<and> protocol s' = None \<and> \<not> connect_lock s'
            \<and> closing s' t \<and> \<not> is_connected s')
       \<and> (\<forall>p. greeting = Yields p \<and> code p = 220 \<longrightarrow>
            r = Return p \<and> transport s' = Some t
            \<and> protocol s' = Some (SMTPProtocol (loop s')) \<and> connect_lock s'
            \<and> closing s' = closing s)"
proof -
  have no: "\<not> (tls_context (connect_settings s a) \<noteq> None
               \<and> client_cert (connect_settings s a) \<noteq> None)"
    using assms(3) by auto
  have run: "create_connection H ((connect_settings s a)\<lparr>connect_lock := True\<rparr>)
               (Yields t) greeting = (r, s')"
    using assms(4) unfolding connect_proceeds [OF assms(1) no] .
  have h: "hostname ((connect_settings s a)\<lparr>connect_lock := True\<rparr>) \<noteq> None"
    using assms(2) by simp
  have p: "port ((connect_settings s a)\<lparr>connect_lock := True\<rparr>) \<noteq> None"
    by (simp add: connect_settings_port)
  from create_connection_greeting [OF h p run] create_connection_settings [OF run]
  show ?thesis
    by (auto simp: connect_settings_frame is_connected_def)
qed

theorem connect_greeting_outcomes_witness:
  "fst (connect flat_hierarchy fresh_conn connect_defaults (Yields 7) (Throws slow))
     = Raise (Exn (SMTP SMTPConnectTimeoutError)
                (Text ''Timed out waiting for server ready message''))
   \<and> closing (snd (connect flat_hierarchy fresh_conn connect_defaults (Yields 7) (Throws slow))) 7
   \<and> \<not> connect_lock
         (snd (connect flat_hierarchy fresh_conn connect_defaults (Yields 7) (Throws slow)))
   \<and> fst (connect flat_hierarchy fresh_conn connect_defaults (Yields 7) (Yields busy))
       = Raise (Exn (SMTP SMTPConnectError) (ResponseStr busy))
   \<and> transport (snd (connect flat_hierarchy fresh_conn connect_defaults (Yields 7) (Yields busy)))
       = None
   \<and> fst (connect flat_hierarchy fresh_conn connect_defaults (Yields 7) (Yields ready))
       = Return ready
   \<and> transport (snd (connect flat_hierarchy fresh_conn connect_defaults (Yields 7) (Yields ready)))
       = Some 7"
proof -
  have free: "\<not> connect_lock fresh_conn"
    by (simp add: fresh_conn_def)
  have host: "hostname (connect_settings fresh_conn connect_defaults) \<noteq> None"
    by (simp add: connect_settings_fields connect_defaults_def fresh_conn_def)
  have excl: "tls_context (connect_settings fresh_conn connect_defaults) = None
              \<or> client_cert (connect_settings fresh_conn connect_defaults) = None"
    by (simp add: connect_settings_fields connect_defaults_def fresh_conn_def)
  have late: "isinstance flat_hierarchy slow [AsyncioTimeoutError]"
    by (simp add: isinstance_def issubclass_def slow_def)
  show ?thesis
    using connect_greeting_outcomes [OF free host excl surjective_pairing,
            where H = flat_hierarchy and t = 7 and greeting = "Throws slow"]
      connect_greeting_outcomes [OF free host excl surjective_pairing,
            where H = flat_hierarchy and t = 7 and greeting = "Yields busy"]
      connect_greeting_outcomes [OF free host excl surjective_pairing,
            where H = flat_hierarchy and t = 7 and greeting = "Yields ready"]
      late
    by (simp add: busy_def ready_def)
qed

text \<open>
  Claim C1, at its failing inputs. \<^verbatim>\<open>SMTPConnection(tls_context=ctx)\<close> followed by
  \<^verbatim>\<open>connect(client_cert="me.pem")\<close> raises \<^verbatim>\<open>ValueError\<close> and leaves the lock held, so that
  the next \<^verbatim>\<open>connect\<close>, with the certificate taken back, never gets past acquiring the
  lock. \<^verbatim>\<open>SMTPConnection(hostname=None)\<close> followed by \<^verbatim>\<open>connect()\<close> raises
  \<^verbatim>\<open>ValueError\<close> with the lock held as well. A refused connection, by contrast, has gone
  through \<^verbatim>\<open>close()\<close> when \<^verbatim>\<open>SMTPConnectError\<close> is raised, and the lock is free.
\<close>

theorem connect_config_error_keeps_lock:
  "init (init_defaults\<lparr>init_tls_context := Some 0\<rparr>) 0 world0
     = Inr (fresh_conn\<lparr>tls_context := Some 0\<rparr>)
   \<and> connect H (fresh_conn\<lparr>tls_context := Some 0\<rparr>)
        (connect_defaults\<lparr>arg_client_cert := Value (Some ''me.pem'')\<rparr>) opened greeting
     = (Raise (Exn ValueError
                 (Text ''Either a TLS context or a certificate/key must be provided'')),
        fresh_conn\<lparr>tls_context := Some 0, client_cert := Some ''me.pem'', port := Some 25,
                   connect_lock := True\<rparr>)
   \<and> connect H (fresh_conn\<lparr>tls_context := Some 0, client_cert := Some ''me.pem'',
                            port := Some 25, connect_lock := True\<rparr>)
        (connect_defaults\<lparr>arg_client_cert := Value None\<rparr>) opened greeting
     = (Blocked, fresh_conn\<lparr>tls_context := Some 0, client_cert := Some ''me.pem'',
                            port := Some 25, connect_lock := True\<rparr>)
   \<and> init (init_defaults\<lparr>init_hostname := None\<rparr>) 0 world0
     = Inr (fresh_conn\<lparr>hostname := None\<rparr>)
   \<and> connect H (fresh_conn\<lparr>hostname := None\<rparr>) connect_defaults opened greeting
     = (Raise (Exn ValueError (Text ''Hostname must be set.'')),
        fresh_conn\<lparr>hostname := None, port := Some 25, connect_lock := True\<rparr>)
   \<and> connect H fresh_conn connect_defaults (Throws refused) greeting
     = (Raise (Exn (SMTP SMTPConnectError)
                 (ConnectFailed (Some ''localhost'') (Some 25) (Text ''Connection refused''))),
        fresh_conn\<lparr>port := Some 25,
                   trace := [CreateConnection (Some ''localhost'') (Some 25) None (Some 60)]\<rparr>)"
proof -
  have a: "init (init_defaults\<lparr>init_tls_context := Some 0\<rparr>) 0 world0
     = Inr (fresh_conn\<lparr>tls_context := Some 0\<rparr>)"
    by (simp add: init_def init_defaults_def world0_def fresh_conn_def DEFAULT_TIMEOUT_def)
  have b: "connect H (fresh_conn\<lparr>tls_context := Some 0\<rparr>)
        (connect_defaults\<lparr>arg_client_cert := Value (Some ''me.pem'')\<rparr>) opened greeting
     = (Raise (Exn ValueError
                 (Text ''Either a TLS context or a certificate/key must be provided'')),
        fresh_conn\<lparr>tls_context := Some 0, client_cert := Some ''me.pem'', port := Some 25,
                   connect_lock := True\<rparr>)"
    by (simp add: connect_unlocked connect_settings_fields connect_settings_eq
                  connect_defaults_def fresh_conn_def SMTP_PORT_def)
  have c: "connect H (fresh_conn\<lparr>tls_context := Some 0, client_cert := Some ''me.pem'',
                            port := Some 25, connect_lock := True\<rparr>)
        (connect_defaults\<lparr>arg_client_cert := Value None\<rparr>) opened greeting
     = (Blocked, fresh_conn\<lparr>tls_context := Some 0, client_cert := Some ''me.pem'',
                            port := Some 25, connect_lock := True\<rparr>)"
    by (simp add: connect_def)
  have d: "init (init_defaults\<lparr>init_hostname := None\<rparr>) 0 world0
     = Inr (fresh_conn\<lparr>hostname := None\<rparr>)"
    by (simp add: init_def init_defaults_def world0_def fresh_conn_def DEFAULT_TIMEOUT_def)
  have e: "connect H (fresh_conn\<lparr>hostname := None\<rparr>) connect_defaults opened greeting
     = (Raise (Exn ValueError (Text ''Hostname must be set.'')),
        fresh_conn\<lparr>hostname := None, port := Some 25, connect_lock := True\<rparr>)"
    by (simp add: connect_unlocked connect_settings_fields connect_settings_eq
                  connect_defaults_def fresh_conn_def SMTP_PORT_def create_connection_def)
  have f: "connect H fresh_conn connect_defaults (Throws refused) greeting
     = (Raise (Exn (SMTP SMTPConnectError)
                 (ConnectFailed (Some ''localhost'') (Some 25) (Text ''Connection refused''))),
        fresh_conn\<lparr>port := Some 25,
                   trace := [CreateConnection (Some ''localhost'') (Some 25) None (Some 60)]\<rparr>)"
    by (simp add: connect_unlocked connect_settings_fields connect_settings_eq
                  connect_defaults_def fresh_conn_def SMTP_PORT_def create_connection_def
                  and_then_def refused_def isinstance_def issubclass_def close_returns Let_def)
  from a b c d e f show ?thesis by blast
qed

section \<open>Commands\<close>

lemma raise_error_if_disconnected_eq:
  "raise_error_if_disconnected s =
     (if transport s = None \<or> protocol s = None \<or> (\<exists>t. transport s = Some t \<and> closing s t)
      then (Raise (Exn (SMTP SMTPServerDisconnected) (Text ''Disconnected from SMTP server'')),
            snd (close s))
      else (Return (), s))"
  by (cases "transport s")
     (simp_all add: raise_error_if_disconnected_def and_then_def close_returns)

text \<open>
  Claim C2, as amended. Without a live transport and protocol (transport absent, protocol
  absent, or transport closing), \<^verbatim>\<open>execute_command\<close> and \<^verbatim>\<open>get_transport_info\<close> raise
  \<^verbatim>\<open>SMTPServerDisconnected\<close> whatever the protocol would have answered, and no call of a
  collaborator is added to the trace. \<^verbatim>\<open>close()\<close> has run first: the state is the one
  \<^verbatim>\<open>close()\<close> leaves, with the lock released and both references cleared.
\<close>

theorem disconnected_operation_closes_and_raises:
  assumes "transport s = None \<or> protocol s = None \<or> (\<exists>t. transport s = Some t \<and> closing s t)"
  shows "execute_command H s args tmo reply
           = (Raise (Exn (SMTP SMTPServerDisconnected) (Text ''Disconnected from SMTP server'')),
              snd (close s))
     \<and> get_transport_info get_extra_info s key
           = (Raise (Exn (SMTP SMTPServerDisconnected) (Text ''Disconnected from SMTP server'')),
              snd (close s))
     \<and> trace (snd (close s)) = trace s
     \<and> transport (snd (close s)) = None \<and> protocol (snd (close s)) = None
     \<and> \<not> connect_lock (snd (close s))"
proof -
  have "raise_error_if_disconnected s
          = (Raise (Exn (SMTP SMTPServerDisconnected) (Text ''Disconnected from SMTP server'')),
             snd (close s))"
    using assms by (simp add: raise_error_if_disconnected_eq)
  then show ?thesis
    by (simp add: execute_command_def get_transport_info_def and_then_def close_returns)
qed

theorem disconnected_operation_closes_and_raises_witness:
  "execute_command flat_hierarchy dropped_conn [''NOOP''] Default (Yields ready)
     = (Raise (Exn (SMTP SMTPServerDisconnected) (Text ''Disconnected from SMTP server'')),
        snd (close dropped_conn))
   \<and> get_transport_info (\<lambda>t k. k) dropped_conn ''peername''
     = (Raise (Exn (SMTP SMTPServerDisconnected) (Text ''Disconnected from SMTP server'')),
        snd (close dropped_conn))
   \<and> trace (snd (close dropped_conn)) = trace dropped_conn"
proof -
  have "transport dropped_conn = None \<or> protocol dropped_conn = None
        \<or> (\<exists>t. transport dropped_conn = Some t \<and> closing dropped_conn t)"
    by (simp add: dropped_conn_def open_conn_def fresh_conn_def)
  from disconnected_operation_closes_and_raises
         [OF this, of flat_hierarchy "[''NOOP'']" Default "Yields ready" "\<lambda>t k. k" "''peername''"]
  show ?thesis by simp
qed

text \<open>
  Claim C2 as stated fails: the teardown is performed. On \<open>dropped_conn\<close> (connected, then
  closed by the peer) the failing command releases the held lock and clears the transport
  and protocol references, so the state is not the one before the call. On
  \<open>half_open_conn\<close> (an open transport without protocol) the failing command closes the
  transport.
\<close>

theorem disconnected_command_tears_down:
  "connect_lock dropped_conn \<and> transport dropped_conn = Some 7 \<and> protocol dropped_conn \<noteq> None
   \<and> \<not> connect_lock
         (snd (execute_command flat_hierarchy dropped_conn [''NOOP''] Default (Yields ready)))
   \<and> transport (snd (execute_command flat_hierarchy dropped_conn [''NOOP''] Default (Yields ready)))
       = None
   \<and> protocol (snd (execute_command flat_hierarchy dropped_conn [''NOOP''] Default (Yields ready)))
       = None
   \<and> snd (execute_command flat_hierarchy dropped_conn [''NOOP''] Default (Yields ready)) \<noteq> dropped_conn
   \<and> is_connected half_open_conn
   \<and> closing
        (snd (execute_command flat_hierarchy half_open_conn [''NOOP''] Default (Yields ready))) 7"
proof -
  have a: "connect_lock dropped_conn \<and> transport dropped_conn = Some 7 \<and> protocol dropped_conn \<noteq> None"
    by (simp add: dropped_conn_def open_conn_def fresh_conn_def)
  have b: "snd (execute_command flat_hierarchy dropped_conn [''NOOP''] Default (Yields ready))
             = snd (close dropped_conn)"
    by (simp add: execute_command_def raise_error_if_disconnected_def and_then_def
                  close_returns dropped_conn_def open_conn_def fresh_conn_def)
  have c: "\<not> connect_lock (snd (close dropped_conn)) \<and> transport (snd (close dropped_conn)) = None
           \<and> protocol (snd (close dropped_conn)) = None"
    by (simp add: close_returns)
  have d: "snd (close dropped_conn) \<noteq> dropped_conn"
  proof
    assume "snd (close dropped_conn) = dropped_conn"
    with a c show False by simp
  qed
  have e: "is_connected half_open_conn"
    by (simp add: is_connected_def half_open_conn_def open_conn_def fresh_conn_def)
  have f: "closing
        (snd (execute_command flat_hierarchy half_open_conn [''NOOP''] Default (Yields ready))) 7"
    by (simp add: execute_command_def raise_error_if_disconnected_def and_then_def
                  close_returns half_open_conn_def open_conn_def fresh_conn_def)
  show ?thesis using a b c d e f by simp
qed

text \<open>
  Claim C7. On a live connection (transport present and not closing, protocol present), a
  command whose response arrives is answered with that response, never with an exception.
  When the response code is 421 the connection has been closed: \<open>is_connected\<close> is
  false afterwards. For any other code the connection is as it was, but for the trace of
  the command sent, and \<open>is_connected\<close> still holds.
\<close>

theorem execute_command_unavailable_closes:
  assumes "transport s = Some t" and "\<not> closing s t" and "protocol s \<noteq> None"
    and "execute_command H s args tmo (Yields r) = (res, s')"
  shows "res = Return r
     \<and> (code r = 421 \<longrightarrow>
          \<not> is_connected s' \<and> closing s' t \<and> transport s' = None \<and> protocol s' = None
          \<and> \<not> connect_lock s')
     \<and> (code r \<noteq> 421 \<longrightarrow>
          is_connected s'
          \<and> s' = s\<lparr>trace := trace s
                      @ [ExecuteCommand args
                           (case tmo of Default \<Rightarrow> timeout s | Value v \<Rightarrow> v)]\<rparr>)"
  using assms
  by (auto simp: execute_command_def raise_error_if_disconnected_def and_then_def
                 close_returns is_connected_def SMTPStatus_domain_unavailable_def Let_def
           split: if_splits)

theorem execute_command_unavailable_closes_witness:
  "fst (execute_command flat_hierarchy open_conn [''NOOP''] Default (Yields unavailable))
     = Return unavailable
   \<and> \<not> is_connected
         (snd (execute_command flat_hierarchy open_conn [''NOOP''] Default (Yields unavailable)))
   \<and> fst (execute_command flat_hierarchy open_conn [''NOOP''] Default (Yields ready))
       = Return ready
   \<and> is_connected
         (snd (execute_command flat_hierarchy open_conn [''NOOP''] Default (Yields ready)))"
proof -
  have t: "transport open_conn = Some 7" and c: "\<not> closing open_conn 7"
    and p: "protocol open_conn \<noteq> None"
    by (simp_all add: open_conn_def fresh_conn_def)
  show ?thesis
    using execute_command_unavailable_closes [OF t c p surjective_pairing,
        of flat_hierarchy "[''NOOP'']" Default unavailable]
      execute_command_unavailable_closes [OF t c p surjective_pairing,
        of flat_hierarchy "[''NOOP'']" Default ready]
    by (simp add: unavailable_def ready_def is_connected_def open_conn_def fresh_conn_def)
qed

section \<open>Leaving the scope\<close>

text \<open>
  Claim C8, at its failing input. On a connected object, leaving the scope with
  \<^verbatim>\<open>ConnectionResetError\<close>, a subclass of \<^verbatim>\<open>ConnectionError\<close>, does what leaving it with no
  exception does: \<^verbatim>\<open>quit\<close> is attempted. With the \<^verbatim>\<open>quit\<close> of this class,
  \<^verbatim>\<open>NotImplementedError\<close> leaves the scope and the transport stays open; with a \<^verbatim>\<open>quit\<close>
  that returns and closes nothing, the transport stays open too. Only the class
  \<^verbatim>\<open>ConnectionError\<close> itself leads to \<^verbatim>\<open>close()\<close> at once.
\<close>

theorem aexit_subclass_attempts_quit:
  "is_connected open_conn
   \<and> issubclass H ConnectionResetError ConnectionError
   \<and> aexit H quit' open_conn (Some ConnectionResetError) = aexit H quit' open_conn None
   \<and> aexit H quit open_conn (Some ConnectionResetError)
       = (Raise (Exn NotImplementedError (Text [])), open_conn)
   \<and> aexit H (\<lambda>tmo s. (Return ready, s)) open_conn (Some ConnectionResetError)
       = (Return (), open_conn)
   \<and> aexit H quit' open_conn (Some ConnectionError) = close open_conn
   \<and> \<not> is_connected (snd (close open_conn))"
proof -
  have a: "is_connected open_conn"
    by (simp add: is_connected_def open_conn_def fresh_conn_def)
  have b: "issubclass H ConnectionResetError ConnectionError"
    by (simp add: issubclass_def)
  have c: "aexit H q open_conn (Some ConnectionResetError)
             = (case q Default open_conn of
                  (Return r, s) \<Rightarrow> (Return (), s)
                | (Raise err, s) \<Rightarrow>
                    if isinstance H err
                         [ConnectionError, SMTP SMTPResponseException, SMTP SMTPTimeoutError]
                    then close s
                    else (Raise err, s)
                | (Blocked, s) \<Rightarrow> (Blocked, s))" for q
    using a by (simp add: aexit_def)
  have d: "aexit H q open_conn None
             = (case q Default open_conn of
                  (Return r, s) \<Rightarrow> (Return (), s)
                | (Raise err, s) \<Rightarrow>
                    if isinstance H err
                         [ConnectionError, SMTP SMTPResponseException, SMTP SMTPTimeoutError]
                    then close s
                    else (Raise err, s)
                | (Blocked, s) \<Rightarrow> (Blocked, s))" for q
    using a by (simp add: aexit_def)
  have e: "aexit H quit open_conn (Some ConnectionResetError)
       = (Raise (Exn NotImplementedError (Text [])), open_conn)"
    by (simp add: c quit_def isinstance_def issubclass_def)
  have f: "aexit H (\<lambda>tmo s. (Return ready, s)) open_conn (Some ConnectionResetError)
       = (Return (), open_conn)"
    by (simp add: c)
  have g: "aexit H quit' open_conn (Some ConnectionError) = close open_conn"
    by (simp add: aexit_def)
  have h: "\<not> is_connected (snd (close open_conn))"
    by (simp add: close_returns is_connected_def)
  from a b c [of quit'] d [of quit'] e f g h show ?thesis by simp
qed

end
